theory Spec2Isabelle
  imports Main "HOL-Library.AList"
begin

section \<open>Python strings\<close>

text \<open>
  A Python \<open>str\<close> is modelled as \<^typ>\<open>string\<close>; a character stands for the code point
  of the same number (the code points below 256). \<open>len\<close> is \<^const>\<open>length\<close>,
  \<open>s[:n]\<close> is \<^term>\<open>take n s\<close> and \<open>+\<close> is \<^term>\<open>(@)\<close>.
\<close>

definition nl :: char where
  "nl = CHR 0x0A"

text \<open>\<open>str.isspace\<close> on one character: the code points that \<open>str.strip()\<close> removes.\<close>

definition isspace :: "char \<Rightarrow> bool" where
  "isspace c =
     (let n = (of_char c :: nat)
      in (9 \<le> n \<and> n \<le> 13) \<or> (28 \<le> n \<and> n \<le> 32) \<or> n = 133 \<or> n = 160)"

definition lstrip :: "string \<Rightarrow> string" where
  "lstrip s = dropWhile isspace s"

definition rstrip :: "string \<Rightarrow> string" where
  "rstrip s = rev (dropWhile isspace (rev s))"

definition strip :: "string \<Rightarrow> string" where
  "strip s = rstrip (lstrip s)"

text \<open>\<open>str.lower()\<close>: the capital letters of ASCII and of Latin-1 move up by 32.\<close>

definition lower_char :: "char \<Rightarrow> char" where
  "lower_char c =
     (let n = (of_char c :: nat)
      in if (65 \<le> n \<and> n \<le> 90) \<or> (192 \<le> n \<and> n \<le> 222 \<and> n \<noteq> 215)
         then char_of (n + 32) else c)"

definition lower :: "string \<Rightarrow> string" where
  "lower s = map lower_char s"

text \<open>
  \<open>str.upper()\<close>, which the program applies to a detected document type only: the
  small letters of ASCII move down by 32, every other character of such a label
  stays.
\<close>

definition upper_char :: "char \<Rightarrow> char" where
  "upper_char c =
     (let n = (of_char c :: nat)
      in if 97 \<le> n \<and> n \<le> 122 then char_of (n - 32) else c)"

definition upper :: "string \<Rightarrow> string" where
  "upper s = map upper_char s"

definition startswith :: "string \<Rightarrow> string \<Rightarrow> bool" where
  "startswith s p = (take (length p) s = p)"

text \<open>\<open>s.split(sep)\<close> for a one-character separator: never the empty list.\<close>

fun split :: "char \<Rightarrow> string \<Rightarrow> string list" where
  "split sep [] = [[]]"
| "split sep (c # cs) =
     (if c = sep then [] # split sep cs
      else (case split sep cs of
              l # ls \<Rightarrow> (c # l) # ls
            | [] \<Rightarrow> [[c]]))"

text \<open>\<open>sep.join(parts)\<close>.\<close>

fun join :: "string \<Rightarrow> string list \<Rightarrow> string" where
  "join sep [] = []"
| "join sep [l] = l"
| "join sep (l # ls) = l @ sep @ join sep ls"

text \<open>\<open>xs[a:b]\<close> for indices that are not negative.\<close>

definition slice :: "'a list \<Rightarrow> nat \<Rightarrow> nat \<Rightarrow> 'a list" where
  "slice xs a b = take (b - a) (drop a xs)"

text \<open>\<open>'%d' % n\<close> for a number that is not negative.\<close>

definition digit_char :: "nat \<Rightarrow> char" where
  "digit_char d = char_of (48 + d)"

fun str_nat :: "nat \<Rightarrow> string" where
  "str_nat n = (if n < 10 then [digit_char n] else str_nat (n div 10) @ [digit_char (n mod 10)])"

declare str_nat.simps [simp del]

section \<open>Document types and the template registry\<close>

text \<open>The list \<open>valid_types\<close> of \<open>_detect_document_type\<close>.\<close>

definition valid_types :: "string list" where
  "valid_types =
     [''contract'', ''nda'', ''will'', ''lease'', ''employment'', ''partnership'',
      ''power_of_attorney'', ''license'', ''settlement'', ''corporate'',
      ''real_estate'', ''court_order'', ''judgment'', ''affidavit'', ''legal_notice'',
      ''insurance'', ''loan'', ''general'']"

record template =
  template_fields :: "string list"
  template_focus :: string

text \<open>The dictionary \<open>templates\<close> of \<open>_get_document_template\<close>, in the order it is written.\<close>

definition templates :: "(string \<times> template) list" where
  "templates =
   [(''contract'',
      \<lparr>template_fields = [''documentType'', ''summary'', ''parties'', ''keyTerms'', ''obligations'',
         ''deliverables'', ''timeline'', ''paymentTerms'', ''terminationClauses'', ''penalties'',
         ''disputeResolution'', ''risks'', ''recommendations''],
       template_focus = ''contractual obligations, performance requirements, and legal commitments''\<rparr>),
    (''nda'',
      \<lparr>template_fields = [''documentType'', ''summary'', ''parties'', ''confidentialInfo'', ''restrictions'',
         ''duration'', ''exceptions'', ''returnRequirements'', ''penalties'', ''risks'',
         ''recommendations''],
       template_focus = ''confidentiality obligations, information protection, and disclosure restrictions''\<rparr>),
    (''will'',
      \<lparr>template_fields = [''documentType'', ''summary'', ''testator'', ''executor'', ''beneficiaries'',
         ''assets'', ''bequests'', ''guardianship'', ''conditions'', ''witnesses'', ''risks'',
         ''recommendations''],
       template_focus = ''asset distribution, beneficiary rights, and estate planning''\<rparr>),
    (''lease'',
      \<lparr>template_fields = [''documentType'', ''summary'', ''parties'', ''property'', ''rentAmount'',
         ''leaseTerm'', ''responsibilities'', ''restrictions'', ''renewalOptions'',
         ''terminationConditions'', ''securityDeposit'', ''risks'', ''recommendations''],
       template_focus = ''rental obligations, property usage rights, and tenancy terms''\<rparr>),
    (''employment'',
      \<lparr>template_fields = [''documentType'', ''summary'', ''parties'', ''position'', ''salary'', ''benefits'',
         ''duties'', ''workingConditions'', ''terminationConditions'', ''confidentiality'',
         ''nonCompete'', ''risks'', ''recommendations''],
       template_focus = ''employment terms, job responsibilities, and worker rights''\<rparr>),
    (''partnership'',
      \<lparr>template_fields = [''documentType'', ''summary'', ''partners'', ''businessPurpose'',
         ''capitalContributions'', ''profitSharing'', ''managementStructure'', ''decisionMaking'',
         ''dissolution'', ''liabilities'', ''risks'', ''recommendations''],
       template_focus = ''business partnership terms, profit sharing, and management responsibilities''\<rparr>),
    (''power_of_attorney'',
      \<lparr>template_fields = [''documentType'', ''summary'', ''principal'', ''agent'', ''powers'', ''limitations'',
         ''duration'', ''conditions'', ''revocation'', ''witnessRequirements'', ''risks'',
         ''recommendations''],
       template_focus = ''delegated authority, agent powers, and principal protection''\<rparr>),
    (''license'',
      \<lparr>template_fields = [''documentType'', ''summary'', ''parties'', ''licensedProperty'', ''scope'',
         ''restrictions'', ''royalties'', ''term'', ''terminationRights'', ''intellectualProperty'',
         ''risks'', ''recommendations''],
       template_focus = ''usage rights, licensing terms, and intellectual property protection''\<rparr>),
    (''settlement'',
      \<lparr>template_fields = [''documentType'', ''summary'', ''parties'', ''dispute'', ''settlementAmount'',
         ''paymentTerms'', ''releases'', ''conditions'', ''confidentiality'', ''enforcement'',
         ''risks'', ''recommendations''],
       template_focus = ''dispute resolution, settlement terms, and legal releases''\<rparr>),
    (''corporate'',
      \<lparr>template_fields = [''documentType'', ''summary'', ''entity'', ''directors'', ''shareholders'',
         ''governance'', ''voting'', ''meetings'', ''fiduciary'', ''compliance'', ''risks'',
         ''recommendations''],
       template_focus = ''corporate governance, shareholder rights, and regulatory compliance''\<rparr>),
    (''real_estate'',
      \<lparr>template_fields = [''documentType'', ''summary'', ''parties'', ''property'', ''purchasePrice'',
         ''financing'', ''contingencies'', ''inspections'', ''closing'', ''warranties'', ''risks'',
         ''recommendations''],
       template_focus = ''property transfer, purchase terms, and real estate obligations''\<rparr>),
    (''court_order'',
      \<lparr>template_fields = [''documentType'', ''summary'', ''court'', ''parties'', ''ruling'', ''requirements'',
         ''deadlines'', ''penalties'', ''compliance'', ''appealRights'', ''risks'',
         ''recommendations''],
       template_focus = ''court mandates, compliance requirements, and legal obligations''\<rparr>),
    (''judgment'',
      \<lparr>template_fields = [''documentType'', ''summary'', ''court'', ''parties'', ''caseNumber'',
         ''legalIssues'', ''facts'', ''legalPrinciples'', ''ratio'', ''ruling'', ''precedents'',
         ''implications'', ''recommendations''],
       template_focus = ''judicial reasoning, legal precedents, and case implications''\<rparr>),
    (''affidavit'',
      \<lparr>template_fields = [''documentType'', ''summary'', ''deponent'', ''purpose'', ''facts'', ''statements'',
         ''verification'', ''notarization'', ''jurisdiction'', ''consequences'', ''risks'',
         ''recommendations''],
       template_focus = ''sworn statements, factual declarations, and legal attestations''\<rparr>),
    (''legal_notice'',
      \<lparr>template_fields = [''documentType'', ''summary'', ''sender'', ''recipient'', ''issue'', ''demands'',
         ''deadlines'', ''consequences'', ''legalBasis'', ''nextSteps'', ''risks'',
         ''recommendations''],
       template_focus = ''legal demands, compliance requirements, and potential consequences''\<rparr>),
    (''insurance'',
      \<lparr>template_fields = [''documentType'', ''summary'', ''parties'', ''coverage'', ''premiums'',
         ''deductibles'', ''exclusions'', ''claims'', ''beneficiaries'', ''renewal'', ''risks'',
         ''recommendations''],
       template_focus = ''insurance coverage, policy terms, and claim procedures''\<rparr>),
    (''loan'',
      \<lparr>template_fields = [''documentType'', ''summary'', ''parties'', ''loanAmount'', ''interestRate'',
         ''repaymentTerms'', ''collateral'', ''defaults'', ''acceleration'', ''guarantees'', ''risks'',
         ''recommendations''],
       template_focus = ''lending terms, repayment obligations, and default consequences''\<rparr>),
    (''general'',
      \<lparr>template_fields = [''documentType'', ''summary'', ''keyPoints'', ''parties'', ''importantDates'',
         ''financialTerms'', ''obligations'', ''risks'', ''recommendations''],
       template_focus = ''general legal provisions and key obligations''\<rparr>)]"

text \<open>
  \<open>_get_document_template\<close>: \<open>templates.get(document_type, templates["general"])\<close>.
  The key \<open>general\<close> is in the dictionary, so the default never raises.
\<close>

definition get_document_template :: "string \<Rightarrow> template" where
  "get_document_template document_type =
     (case map_of templates document_type of
        Some t \<Rightarrow> t
      | None \<Rightarrow> the (map_of templates ''general''))"

section \<open>Python values and exceptions\<close>

text \<open>
  The values the program handles: what \<open>json.loads\<close> returns and what the analysis
  result holds. A \<open>dict\<close> with string keys is an association list in insertion order;
  \<open>d[k] = v\<close> is \<^const>\<open>AList.update\<close>, which replaces the value of a key that is
  there and appends a new key at the end. A \<open>float\<close> is kept as the text of its literal.
\<close>

datatype pyval =
    PNone
  | PBool bool
  | PInt int
  | PFloat string
  | PStr string
  | PList "pyval list"
  | PDict "(string \<times> pyval) list"

text \<open>
  The exceptions of the program, each with its message. \<open>JSONDecodeError msg doc pos\<close>
  is the error of the \<open>json\<close> module; \<open>Other cls msg\<close> is an exception of any other
  class raised by a collaborator (the model service, a file reader).
\<close>

datatype exn =
    FileNotFoundError string
  | ValueError string
  | IndexError string
  | TypeError string
  | Exception string
  | JSONDecodeError string string nat
  | Other string string

text \<open>
  \<open>str(e)\<close> of a \<open>JSONDecodeError\<close>, as its constructor builds it:
  \<open>'%s: line %d column %d (char %d)' % (msg, lineno, colno, pos)\<close> with
  \<open>lineno = doc.count('\n', 0, pos) + 1\<close> and \<open>colno = pos - doc.rfind('\n', 0, pos)\<close>.
\<close>

definition lineno :: "string \<Rightarrow> nat \<Rightarrow> nat" where
  "lineno doc pos = count_list (take pos doc) nl + 1"

definition colno :: "string \<Rightarrow> nat \<Rightarrow> nat" where
  "colno doc pos = length (takeWhile (\<lambda>c. c \<noteq> nl) (rev (take pos doc))) + 1"

definition errmsg :: "string \<Rightarrow> string \<Rightarrow> nat \<Rightarrow> string" where
  "errmsg msg doc pos =
     msg @ '': line '' @ str_nat (lineno doc pos) @ '' column '' @ str_nat (colno doc pos)
       @ '' (char '' @ str_nat pos @ '')''"

section \<open>The model client\<close>

text \<open>
  \<open>self.model.generate_content(prompt)\<close> followed by \<open>response.text\<close>: a call to the remote
  model. The service is any function from its own state and the prompt to a reply text or
  an exception, and a new state. The world of a request is the state of the service and the
  list of the prompts sent so far.
\<close>

type_synonym 's client = "'s \<Rightarrow> string \<Rightarrow> (exn + string) \<times> 's"

record 's world =
  client_state :: 's
  prompts_sent :: "string list"

definition generate_content :: "'s client \<Rightarrow> string \<Rightarrow> 's world \<Rightarrow> (exn + string) \<times> 's world" where
  "generate_content gen prompt w =
     (case gen (client_state w) prompt of
        (r, s') \<Rightarrow> (r, \<lparr>client_state = s', prompts_sent = prompts_sent w @ [prompt]\<rparr>))"

section \<open>The type classifier\<close>

text \<open>
  The prompt of \<open>_detect_document_type\<close>: a fixed text around \<open>document_text[:4000]\<close>.
  Four heading lines of the instructions begin with a pictograph, which is outside the
  character type and is left out here with the blank after it.
\<close>

definition detection_head :: string where
  "detection_head =
     ''You are a specialized legal document classifier. Analyze this legal document and determine its EXACT type.\<newline>'' @
     ''\<newline>'' @
     ''DOCUMENT TO CLASSIFY:\<newline>''"

definition detection_tail :: string where
  "detection_tail =
     ''\<newline>'' @
     ''\<newline>'' @
     ''Your task is to classify this document into ONE of these specific categories:\<newline>'' @
     ''\<newline>'' @
     ''CONTRACT TYPES:\<newline>'' @
     ''- contract: Business agreements, service contracts, purchase agreements\<newline>'' @
     ''- nda: Non-disclosure agreements, confidentiality agreements  \<newline>'' @
     ''- employment: Employment contracts, job agreements, work contracts\<newline>'' @
     ''- lease: Rental agreements, property lease documents\<newline>'' @
     ''- partnership: Business partnership agreements, joint ventures\<newline>'' @
     ''- license: Licensing agreements, software licenses, IP licenses\<newline>'' @
     ''- settlement: Legal settlement agreements, dispute resolutions\<newline>'' @
     ''- loan: Loan agreements, promissory notes, credit agreements\<newline>'' @
     ''- insurance: Insurance policies, insurance agreements\<newline>'' @
     ''\<newline>'' @
     ''CORPORATE & PROPERTY:\<newline>'' @
     ''- corporate: Corporate bylaws, articles of incorporation, board resolutions\<newline>'' @
     ''- real_estate: Property purchase agreements, real estate transactions\<newline>'' @
     ''- power_of_attorney: Legal power of attorney documents\<newline>'' @
     ''\<newline>'' @
     ''COURT & LEGAL DOCUMENTS:\<newline>'' @
     ''- judgment: Court judgments, judicial decisions, court rulings with legal reasoning\<newline>'' @
     ''- court_order: Court orders, directives, injunctions (commands from court)\<newline>'' @
     ''- affidavit: Sworn statements, affidavits, statutory declarations\<newline>'' @
     ''- legal_notice: Legal notices, cease and desist letters, demand letters\<newline>'' @
     ''\<newline>'' @
     ''CLASSIFICATION INSTRUCTIONS:\<newline>'' @
     ''1. Read the document carefully and identify its primary legal purpose\<newline>'' @
     ''2. Look for specific legal language, document structure, and format\<newline>'' @
     ''3. Pay attention to Indian/international legal terminology\<newline>'' @
     ''4. Distinguish between court judgments (decisions with reasoning) vs court orders (directives)\<newline>'' @
     ''5. Consider the document's main function and legal effect\<newline>'' @
     ''\<newline>'' @
     ''CRITICAL: Return ONLY the exact category name (one word), nothing else.\<newline>'' @
     ''\<newline>'' @
     ''Document Type:''"

definition detection_prompt :: "string \<Rightarrow> string" where
  "detection_prompt document_text = detection_head @ take 4000 document_text @ detection_tail"

text \<open>
  \<open>_detect_document_type\<close>. The whole body is inside \<open>try ... except Exception\<close>, so an
  exception of the model call ends in \<open>"general"\<close>; the reply is stripped, then lowered,
  then looked up in \<open>valid_types\<close>.
\<close>

definition detect_document_type :: "'s client \<Rightarrow> string \<Rightarrow> 's world \<Rightarrow> string \<times> 's world" where
  "detect_document_type gen document_text w =
     (case generate_content gen (detection_prompt document_text) w of
        (Inl e, w') \<Rightarrow> (''general'', w')
      | (Inr text, w') \<Rightarrow>
          (let detected_type = lower (strip text)
           in if detected_type \<in> set valid_types then (detected_type, w')
              else (''general'', w')))"

section \<open>The prompt synthesizer\<close>

text \<open>
  A value of the dictionary \<open>json_fields\<close>: a text, or a list of texts (the first loop
  stores one-item lists under \<open>risks\<close> and \<open>recommendations\<close>).
\<close>

datatype description = Text string | Items "string list"

type_synonym json_fields = "(string \<times> description) list"

text \<open>The first loop over \<open>template["fields"]\<close>: the four fields it describes.\<close>

definition base_description :: "string \<Rightarrow> template \<Rightarrow> string \<Rightarrow> description option" where
  "base_description document_type template field =
     (if field = ''documentType'' then
        Some (Text (''Specific type of '' @ document_type @ '' document''))
      else if field = ''summary'' then
        Some (Text (''Comprehensive summary focusing on '' @ template_focus template
                      @ '' with plain language explanation''))
      else if field = ''risks'' then
        Some (Items [''Detailed risk analysis with severity levels and mitigation strategies for ''
                       @ document_type])
      else if field = ''recommendations'' then
        Some (Items [''Actionable recommendations with step-by-step guidance for ''
                       @ document_type])
      else None)"

definition set_base :: "string \<Rightarrow> template \<Rightarrow> json_fields \<Rightarrow> string \<Rightarrow> json_fields" where
  "set_base document_type template jf field =
     (case base_description document_type template field of
        Some d \<Rightarrow> AList.update field d jf
      | None \<Rightarrow> jf)"

text \<open>The dictionary \<open>enhanced_descriptions\<close>, in the order it is written.\<close>

definition enhanced_descriptions :: "(string \<times> (string \<times> string) list) list" where
  "enhanced_descriptions =
     [(''contract'',
       [(''keyTerms'', ''Most important contractual provisions''),
        (''obligations'', ''What each party must do ''),
        (''deliverables'', ''Specific items/services to be provided''),
        (''timeline'', ''Important deadlines and milestones''),
        (''paymentTerms'', ''Financial obligations and schedules''),
        (''terminationClauses'', ''How the contract can end''),
        (''penalties'', ''Consequences for breach''),
        (''disputeResolution'', ''How conflicts are resolved'')]),
      (''nda'',
       [(''confidentialInfo'', ''What information is protected''),
        (''restrictions'', ''Limitations on use and disclosure''),
        (''duration'', ''How long confidentiality lasts''),
        (''exceptions'', ''What information is not protected''),
        (''returnRequirements'', ''What must be returned/destroyed''),
        (''penalties'', ''Consequences for breach'')]),
      (''will'',
       [(''testator'', ''Person making the will ''),
        (''executor'', ''Person managing the estate ''),
        (''beneficiaries'', ''Who receives assets ''),
        (''assets'', ''Property and belongings being distributed ''),
        (''bequests'', ''Specific gifts and distributions ''),
        (''guardianship'', ''Care arrangements for minors '')]),
      (''lease'',
       [(''property'', ''Description of leased premises''),
        (''rentAmount'', ''Monthly/periodic payment''),
        (''leaseTerm'', ''Duration of the lease''),
        (''responsibilities'', ''Maintenance and care duties''),
        (''securityDeposit'', ''Upfront payment requirements''),
        (''renewalOptions'', ''Extension possibilities'')]),
      (''employment'',
       [(''position'', ''Job title and role''),
        (''salary'', ''Compensation details''),
        (''benefits'', ''Healthcare, vacation, etc.''),
        (''duties'', ''Job responsibilities''),
        (''workingConditions'', ''Hours, location, etc.''),
        (''nonCompete'', ''Post-employment restrictions'')]),
      (''partnership'',
       [(''partners'', ''Business partners involved''),
        (''businessPurpose'', ''What the partnership does''),
        (''capitalContributions'', ''Money/assets each partner provides''),
        (''profitSharing'', ''How profits are divided''),
        (''managementStructure'', ''Who makes decisions''),
        (''dissolution'', ''How partnership ends'')]),
      (''power_of_attorney'',
       [(''principal'', ''Person granting power''),
        (''agent'', ''Person receiving power''),
        (''powers'', ''What the agent can do''),
        (''limitations'', ''Restrictions on authority''),
        (''duration'', ''How long powers last''),
        (''revocation'', ''How to cancel'')]),
      (''license'',
       [(''licensedProperty'', ''What's being licensed''),
        (''scope'', ''Permitted uses''),
        (''restrictions'', ''What's not allowed''),
        (''royalties'', ''Payment terms''),
        (''term'', ''License duration''),
        (''intellectualProperty'', ''IP rights and protections'')]),
      (''settlement'',
       [(''dispute'', ''What conflict is being resolved''),
        (''settlementAmount'', ''Payment details''),
        (''paymentTerms'', ''When and how payment is made''),
        (''releases'', ''What claims are being dropped''),
        (''conditions'', ''Requirements for settlement''),
        (''confidentiality'', ''Non-disclosure requirements'')]),
      (''corporate'',
       [(''entity'', ''Corporation details''),
        (''directors'', ''Board members and roles''),
        (''shareholders'', ''Ownership structure''),
        (''governance'', ''How decisions are made''),
        (''voting'', ''Shareholder voting rights''),
        (''compliance'', ''Regulatory requirements'')]),
      (''real_estate'',
       [(''property'', ''Real estate being transferred''),
        (''purchasePrice'', ''Sale amount''),
        (''financing'', ''Loan and mortgage terms''),
        (''contingencies'', ''Conditions for sale''),
        (''inspections'', ''Property examination requirements''),
        (''closing'', ''Transaction completion details'')]),
      (''court_order'',
       [(''court'', ''Issuing court information''),
        (''ruling'', ''Court's decision''),
        (''requirements'', ''What must be done''),
        (''deadlines'', ''Time limits for compliance''),
        (''penalties'', ''Consequences for non-compliance''),
        (''appealRights'', ''Options for challenging'')]),
      (''judgment'',
       [(''court'', ''Court that delivered the judgment''),
        (''caseNumber'', ''Official case reference''),
        (''legalIssues'', ''Questions of law addressed''),
        (''facts'', ''Key factual findings''),
        (''legalPrinciples'', ''Legal doctrines applied''),
        (''ratio'', ''The legal reasoning behind the decision (ratio decidendi)''),
        (''ruling'', ''The final decision''),
        (''precedents'', ''Previous cases cited''),
        (''implications'', ''Impact on future cases'')]),
      (''affidavit'',
       [(''deponent'', ''Person making the sworn statement''),
        (''purpose'', ''Reason for the affidavit''),
        (''facts'', ''Factual statements being attested''),
        (''statements'', ''Important declarations made''),
        (''verification'', ''How the statement is verified''),
        (''notarization'', ''Notary and witnessing details''),
        (''jurisdiction'', ''Legal jurisdiction for the affidavit''),
        (''consequences'', ''Implications of false statements'')]),
      (''legal_notice'',
       [(''sender'', ''Who is sending the notice''),
        (''recipient'', ''Who must respond''),
        (''issue'', ''Problem being addressed''),
        (''demands'', ''What is required''),
        (''deadlines'', ''Time limits for response''),
        (''consequences'', ''What happens if ignored'')]),
      (''insurance'',
       [(''coverage'', ''What is protected''),
        (''premiums'', ''Payment amounts''),
        (''deductibles'', ''Out-of-pocket costs''),
        (''exclusions'', ''What's not covered''),
        (''claims'', ''How to file claims''),
        (''beneficiaries'', ''Who receives payouts'')]),
      (''loan'',
       [(''loanAmount'', ''How much is borrowed''),
        (''interestRate'', ''Cost of borrowing''),
        (''repaymentTerms'', ''Payment schedule''),
        (''collateral'', ''Security for the loan''),
        (''defaults'', ''What happens if payments stop''),
        (''guarantees'', ''Additional security'')])]"

text \<open>
  \<open>if document_type in enhanced_descriptions: for field, enhanced_desc in ...items():
  json_fields[field] = enhanced_desc\<close>.
\<close>

definition apply_enhanced :: "string \<Rightarrow> json_fields \<Rightarrow> json_fields" where
  "apply_enhanced document_type jf =
     (case map_of enhanced_descriptions document_type of
        Some descs \<Rightarrow>
          foldl (\<lambda>jf (field, enhanced_desc). AList.update field (Text enhanced_desc) jf) jf descs
      | None \<Rightarrow> jf)"

definition generic_description :: "string \<Rightarrow> string" where
  "generic_description field = ''Relevant '' @ field @ '' information for this document type''"

text \<open>\<open>if field not in json_fields: json_fields[field] = ...\<close>.\<close>

definition ensure_field :: "json_fields \<Rightarrow> string \<Rightarrow> json_fields" where
  "ensure_field jf field =
     (case map_of jf field of
        None \<Rightarrow> AList.update field (Text (generic_description field)) jf
      | Some d \<Rightarrow> jf)"

text \<open>The dictionary \<open>json_fields\<close> after the three passes that fill it.\<close>

definition build_json_fields :: "string \<Rightarrow> template \<Rightarrow> json_fields" where
  "build_json_fields document_type template =
     foldl ensure_field
       (apply_enhanced document_type
          (foldl (set_base document_type template) [] (template_fields template)))
       (template_fields template)"

text \<open>
  \<open>{description}\<close> inside an f-string is \<open>str(description)\<close>: the text itself, and for a
  list of texts (none of which holds a quote or a backslash) its \<open>repr\<close>.
\<close>

definition format_description :: "description \<Rightarrow> string" where
  "format_description d =
     (case d of
        Text s \<Rightarrow> s
      | Items xs \<Rightarrow> ''['' @ join '', '' (map (\<lambda>s. [CHR 0x27] @ s @ [CHR 0x27]) xs) @ '']'')"

text \<open>The body of the loop that writes the schema: one field of the JSON structure.\<close>

definition schema_entry :: "json_fields \<Rightarrow> string \<Rightarrow> string" where
  \<open>schema_entry jf field =
     (let description =
            (case map_of jf field of
               Some d \<Rightarrow> d
             | None \<Rightarrow> Text (generic_description field))
      in if field \<in> set [''risks'', ''recommendations''] then
           ''\<newline>    "'' @ field @ ''": [\<newline>        "First '' @ butlast field
             @ '' item with clear explanation",\<newline>        "Second '' @ butlast field
             @ '' item with actionable details",\<newline>        "Additional '' @ butlast field
             @ '' items as needed"\<newline>    ]''
         else if field \<in> set [''obligations'', ''keyTerms'', ''statements'', ''facts'',
                                ''precedents'', ''legalPrinciples''] then
           ''\<newline>    "'' @ field @ ''": [\<newline>        "First '' @ butlast field
             @ '' item with clear explanation",\<newline>        "Second '' @ butlast field
             @ '' item with practical details",\<newline>        "Additional '' @ butlast field
             @ '' items as needed"\<newline>    ]''
         else
           ''\<newline>    "'' @ field @ ''": "Provide detailed information about ''
             @ format_description description @ ''"'')\<close>

text \<open>
  \<open>for i, field in enumerate(template["fields"])\<close>: the entry of each field, and a comma
  after every entry but the last.
\<close>

definition schema_block :: "json_fields \<Rightarrow> string list \<Rightarrow> string" where
  "schema_block jf fs =
     concat (map (\<lambda>(i, field). schema_entry jf field @ (if i < length fs - 1 then '','' else []))
                 (enumerate 0 fs))"

definition analysis_intro :: string where
  "analysis_intro =
     ''You are an expert legal document analyzer and translator who specializes in DEMYSTIFYING complex legal language for both legal professionals and non-lawyers. Your mission is to make legal documents completely understandable while maintaining accuracy.\<newline>'' @
     ''\<newline>'' @
     ''DOCUMENT TO ANALYZE:\<newline>''"

definition analysis_type_label :: string where
  "analysis_type_label =
     ''\<newline>'' @
     ''\<newline>'' @
     ''DOCUMENT TYPE DETECTED: ''"

definition analysis_focus_label :: string where
  "analysis_focus_label =
     ''\<newline>'' @
     ''ANALYSIS FOCUS: ''"

definition analysis_mission :: string where
  "analysis_mission =
     ''\<newline>'' @
     ''\<newline>'' @
     ''DEMYSTIFICATION MISSION:\<newline>'' @
     ''- Translate legal jargon into plain English while preserving legal accuracy\<newline>'' @
     ''- Explain WHY each provision matters and its real-world implications\<newline>'' @
     ''- Identify potential risks, opportunities, and red flags\<newline>'' @
     ''- Provide actionable insights and recommendations\<newline>'' @
     ''- Include severity levels for risks (LOW/MEDIUM/HIGH/CRITICAL)\<newline>'' @
     ''- Explain complex legal concepts with analogies when helpful\<newline>'' @
     ''- Highlight time-sensitive elements and deadlines\<newline>'' @
     ''- Warn about potential pitfalls and how to avoid them\<newline>'' @
     ''\<newline>'' @
     ''COMPREHENSIVE ANALYSIS REQUIREMENTS:\<newline>'' @
     ''1. Break down complex legal language into simple terms\<newline>'' @
     ''2. Explain the practical impact of each provision\<newline>'' @
     ''3. Identify what could go wrong and how to prevent it\<newline>'' @
     ''4. Provide specific, actionable recommendations\<newline>'' @
     ''5. Include examples where helpful\<newline>'' @
     ''6. Highlight urgent or time-sensitive matters\<newline>'' @
     ''7. Explain legal terminology in parentheses when first used\<newline>'' @
     ''8. Rate risks with severity levels and mitigation strategies\<newline>'' @
     ''\<newline>'' @
     ''Please provide your analysis in the following JSON structure. Be thorough, accurate, and focus on COMPLETE DEMYSTIFICATION:\<newline>'' @
     ''\<newline>'' @
     ''{''"

definition analysis_closing :: string where
  \<open>analysis_closing =
     ''\<newline>'' @
     ''}\<newline>'' @
     ''\<newline>'' @
     ''CRITICAL DEMYSTIFICATION INSTRUCTIONS:\<newline>'' @
     ''1. MANDATORY: Use ONLY the exact field names specified in the JSON structure above - NO OTHER FIELDS\<newline>'' @
     ''2. COMPLETE ALL FIELDS: Every field in the JSON structure must be filled with relevant information\<newline>'' @
     ''3. NO EXTRA FIELDS: Do not add fields like "legalImplications" or any other custom fields\<newline>'' @
     ''4. PLAIN LANGUAGE: Translate ALL legal jargon into simple, understandable terms\<newline>'' @
     ''5. PRACTICAL IMPACT: Explain what each provision means in real-world terms\<newline>'' @
     ''6. SIMPLE FORMAT: Use plain text strings and arrays of strings - no nested objects\<newline>'' @
     ''7. ACTIONABLE INSIGHTS: Provide specific steps people can take\<newline>'' @
     ''8. TIME SENSITIVITY: Highlight deadlines, expiry dates, and urgent matters\<newline>'' @
     ''9. EXAMPLES: Use analogies and examples to clarify complex concepts\<newline>'' @
     ''10. WARNING SIGNS: Identify red flags and potential problems\<newline>'' @
     ''11. OPPORTUNITIES: Point out beneficial provisions and advantages\<newline>'' @
     ''12. CONTEXT: Explain why certain provisions exist and their purpose\<newline>'' @
     ''13. CONSEQUENCES: Clearly state what happens if terms are violated\<newline>'' @
     ''14. NEXT STEPS: Recommend immediate and long-term actions\<newline>'' @
     ''15. COMPREHENSIVE COVERAGE: Leave no stone unturned - analyze every significant aspect\<newline>'' @
     ''\<newline>'' @
     ''STRICT FORMAT REQUIREMENTS:\<newline>'' @
     ''- Return ONLY valid JSON with the exact field names shown above\<newline>'' @
     ''- NO additional fields beyond what's specified\<newline>'' @
     ''- Use simple strings and arrays of strings only\<newline>'' @
     ''- NO nested objects or complex structures\<newline>'' @
     ''- MUST include ALL fields from the template\<newline>'' @
     ''\<newline>'' @
     ''DEMYSTIFICATION GOALS:\<newline>'' @
     ''- Make complex legal language accessible to everyone\<newline>'' @
     ''- Identify hidden risks and opportunities\<newline>'' @
     ''- Provide actionable guidance for decision-making\<newline>'' @
     ''- Explain the "so what" factor for every provision\<newline>'' @
     ''- Transform legal complexity into practical understanding\<newline>'' @
     ''- Empower users with knowledge to make informed decisions\<newline>'' @
     ''\<newline>'' @
     ''FINAL VALIDATION: Ensure your analysis would help someone completely unfamiliar with legal terminology understand this document's full implications and make informed decisions.''\<close>

text \<open>\<open>_create_analysis_prompt\<close> from the template lookup on: pure string construction.\<close>

definition build_analysis_prompt :: "string \<Rightarrow> string \<Rightarrow> string" where
  "build_analysis_prompt document_type document_text =
     (let template = get_document_template document_type;
          jf = build_json_fields document_type template
      in analysis_intro @ document_text @ analysis_type_label @ upper document_type
           @ analysis_focus_label @ template_focus template @ analysis_mission
           @ schema_block jf (template_fields template) @ analysis_closing)"

text \<open>
  \<open>_create_analysis_prompt\<close>: it detects the document type again, from the text it is
  given, with a model call of its own.
\<close>

definition create_analysis_prompt :: "'s client \<Rightarrow> string \<Rightarrow> 's world \<Rightarrow> string \<times> 's world" where
  "create_analysis_prompt gen document_text w =
     (case detect_document_type gen document_text w of
        (document_type, w') \<Rightarrow> (build_analysis_prompt document_type document_text, w'))"

section \<open>The response parser\<close>

definition fence :: string where
  "fence = [CHR 0x60, CHR 0x60, CHR 0x60]"

text \<open>
  \<open>for i in range(len(lines) - 1, -1, -1): if lines[i].strip() == fence: end_idx = i; break\<close>.
  \<open>find_end lines end_idx n\<close> looks at the indices \<open>n - 1\<close> down to \<open>0\<close>.
\<close>

fun find_end :: "string list \<Rightarrow> nat \<Rightarrow> nat \<Rightarrow> nat" where
  "find_end lines end_idx 0 = end_idx"
| "find_end lines end_idx (Suc i) =
     (if strip (lines ! i) = fence then i else find_end lines end_idx i)"

text \<open>
  The removal of the code block markers. \<open>lines[1]\<close> is read before anything else, and
  raises \<open>IndexError\<close> when the text has one line only.
\<close>

definition strip_fence :: "string \<Rightarrow> exn + string" where
  "strip_fence response_text =
     (if startswith response_text fence then
        (let lines = split nl response_text
         in if length lines < 2 then Inl (IndexError ''list index out of range'')
            else
              (let start_idx = (if lower (strip (lines ! 1)) = ''json'' then 2 else 1);
                   end_idx = find_end lines (length lines - 1) (length lines)
               in Inr (join [nl] (slice lines start_idx end_idx))))
      else Inr response_text)"

text \<open>
  \<open>json.loads\<close> belongs to the Python library, not to the program: the parser takes the
  decoder as a parameter, any function from the document to a value or an exception.
\<close>

type_synonym decoder = "string \<Rightarrow> exn + pyval"

text \<open>The dictionary the \<open>except\<close> branch returns.\<close>

definition fallback_response :: "string \<Rightarrow> string \<Rightarrow> pyval" where
  "fallback_response error_details response_text =
     PDict
       [(''documentType'', PStr ''Document Analysis''),
        (''summary'', PStr (''The document was analyzed but the response could not be parsed ''
           @ ''into structured format. The AI may have provided analysis in an unexpected format.'')),
        (''error'', PStr ''JSON parsing failed''),
        (''errorDetails'', PStr error_details),
        (''rawResponse'',
           PStr (if length response_text > 1000 then take 1000 response_text @ ''...''
                 else response_text)),
        (''recommendations'',
           PList [PDict
             [(''item'', PStr ''Manual review recommended''),
              (''severity'', PStr ''HIGH''),
              (''explanation'', PStr (''The automated analysis encountered formatting issues. ''
                 @ ''Please review the raw response above.'')),
              (''action'', PStr ''Contact support or retry the analysis'')]])]"

text \<open>
  \<open>_parse_ai_response\<close>. Only \<open>json.JSONDecodeError\<close> is caught; when it is raised,
  \<open>response_text\<close> is the text handed to the decoder (stripped, the markers removed).
\<close>

definition parse_ai_response :: "decoder \<Rightarrow> string \<Rightarrow> exn + pyval" where
  "parse_ai_response loads response_text =
     (case strip_fence (strip response_text) of
        Inl e \<Rightarrow> Inl e
      | Inr content \<Rightarrow>
          (case loads content of
             Inr parsed_response \<Rightarrow> Inr parsed_response
           | Inl (JSONDecodeError msg doc pos) \<Rightarrow>
               Inr (fallback_response (errmsg msg doc pos) content)
           | Inl e \<Rightarrow> Inl e))"

section \<open>The analysis orchestrator\<close>

text \<open>
  The file system and the text extractor, as the orchestrator sees them: whether a path
  exists, and the text \<open>extract_text_from_file\<close> returns for it or the exception it
  raises.
\<close>

record files =
  path_exists :: "string \<Rightarrow> bool"
  extract_text_from_file :: "string \<Rightarrow> exn + string"

definition model_name :: string where
  "model_name = ''gemini-1.5-flash''"

definition max_chars :: nat where
  "max_chars = 30000"

definition truncation_marker :: string where
  "truncation_marker = ''\<newline>\<newline>[Document truncated for analysis...]''"

text \<open>\<open>if len(document_text) > max_chars: document_text = document_text[:max_chars] + marker\<close>.\<close>

definition truncate_text :: "string \<Rightarrow> string" where
  "truncate_text document_text =
     (if length document_text > max_chars then take max_chars document_text @ truncation_marker
      else document_text)"

text \<open>\<open>obj[key] = value\<close> for a string key: only a dictionary takes it.\<close>

definition set_item :: "pyval \<Rightarrow> string \<Rightarrow> pyval \<Rightarrow> exn + pyval" where
  "set_item obj key v =
     (case obj of
        PDict d \<Rightarrow> Inr (PDict (AList.update key v d))
      | PList xs \<Rightarrow> Inl (TypeError ''list indices must be integers or slices, not str'')
      | PStr s \<Rightarrow> Inl (TypeError (CHR 0x27 # ''str'' @ CHR 0x27 # '' object does not support item assignment''))
      | PInt i \<Rightarrow> Inl (TypeError (CHR 0x27 # ''int'' @ CHR 0x27 # '' object does not support item assignment''))
      | PFloat f \<Rightarrow> Inl (TypeError (CHR 0x27 # ''float'' @ CHR 0x27 # '' object does not support item assignment''))
      | PBool b \<Rightarrow> Inl (TypeError (CHR 0x27 # ''bool'' @ CHR 0x27 # '' object does not support item assignment''))
      | PNone \<Rightarrow> Inl (TypeError (CHR 0x27 # ''NoneType'' @ CHR 0x27 # '' object does not support item assignment'')))"

definition analysis_metadata :: "string \<Rightarrow> string \<Rightarrow> pyval" where
  "analysis_metadata document_text document_type =
     PDict
       [(''documentLength'', PInt (int (length document_text))),
        (''processingTime'', PStr ''completed''),
        (''aiModel'', PStr model_name),
        (''analysisType'', PStr (document_type @ ''_specific''))]"

text \<open>The two assignments that add the metadata to the parsed result.\<close>

definition add_metadata :: "pyval \<Rightarrow> string \<Rightarrow> string \<Rightarrow> exn + pyval" where
  "add_metadata analysis_result document_text document_type =
     (case set_item analysis_result ''detectedDocumentType'' (PStr document_type) of
        Inl e \<Rightarrow> Inl e
      | Inr r \<Rightarrow> set_item r ''analysisMetadata'' (analysis_metadata document_text document_type))"

text \<open>
  \<open>analyze_document\<close>. Its \<open>except\<close> branch logs and raises again, so every exception
  of a step is the outcome of the call.
\<close>

definition analyze_document ::
  "files \<Rightarrow> 's client \<Rightarrow> decoder \<Rightarrow> string \<Rightarrow> 's world \<Rightarrow> (exn + pyval) \<times> 's world" where
  "analyze_document fs gen loads file_path w =
     (if \<not> path_exists fs file_path then
        (Inl (FileNotFoundError (''File not found: '' @ file_path)), w)
      else
        (case extract_text_from_file fs file_path of
           Inl e \<Rightarrow> (Inl e, w)
         | Inr document_text \<Rightarrow>
             if strip document_text = [] then
               (Inl (ValueError ''No text could be extracted from the document''), w)
             else
               (case detect_document_type gen document_text w of
                  (document_type, w1) \<Rightarrow>
                    (let document_text = truncate_text document_text
                     in case create_analysis_prompt gen document_text w1 of
                          (prompt, w2) \<Rightarrow>
                            (case generate_content gen prompt w2 of
                               (Inl e, w3) \<Rightarrow> (Inl e, w3)
                             | (Inr text, w3) \<Rightarrow>
                                 if text = [] then
                                   (Inl (Exception ''No response received from Google Cloud AI''), w3)
                                 else
                                   (case parse_ai_response loads text of
                                      Inl e \<Rightarrow> (Inl e, w3)
                                    | Inr analysis_result \<Rightarrow>
                                        (add_metadata analysis_result document_text document_type,
                                         w3)))))))"

section \<open>A decoder for the concrete runs\<close>

text \<open>
  Every theorem about the parser and the orchestrator below holds for any decoder. The
  concrete runs need one; \<open>json_loads\<close> is \<open>json.loads\<close> on the documents made of one
  number, \<open>true\<close>, \<open>false\<close>, \<open>null\<close>, \<open>NaN\<close>, \<open>Infinity\<close>, an empty object or an empty
  array between JSON whitespace, and on the documents that begin with no JSON value. A
  document that begins a string, an object with members or an array with elements is
  outside it and is reported as \<open>Other ''NotImplementedError''\<close>.
\<close>

definition json_ws :: "char \<Rightarrow> bool" where
  "json_ws c = (c = CHR '' '' \<or> c = CHR 0x09 \<or> c = CHR 0x0A \<or> c = CHR 0x0D)"

definition skip_ws :: "string \<Rightarrow> nat \<Rightarrow> nat" where
  "skip_ws s idx = idx + length (takeWhile json_ws (drop idx s))"

definition is_digit :: "char \<Rightarrow> bool" where
  "is_digit c = (let n = (of_char c :: nat) in 48 \<le> n \<and> n \<le> 57)"

definition int_of_digits :: "string \<Rightarrow> int" where
  "int_of_digits ds = foldl (\<lambda>a c. 10 * a + (int (of_char c) - 48)) 0 ds"

text \<open>
  The number at the head of a text, by
  \<open>(-?(?:0|[1-9]\d*))(\.\d+)?([eE][-+]?\d+)?\<close>: the value and the length of the match.
\<close>

definition match_number :: "string \<Rightarrow> (pyval \<times> nat) option" where
  "match_number rest =
     (let neg = (take 1 rest = ''-'');
          r1 = (if neg then drop 1 rest else rest);
          ds = (if take 1 r1 = ''0'' then ''0'' else takeWhile is_digit r1)
      in if ds = [] then None
         else
           (let r2 = drop (length ds) r1;
                fd = takeWhile is_digit (drop 1 r2);
                frac = (if take 1 r2 = ''.'' \<and> fd \<noteq> [] then ''.'' @ fd else []);
                r3 = drop (length frac) r2;
                sign = (if take 1 (drop 1 r3) = ''+'' \<or> take 1 (drop 1 r3) = ''-''
                        then take 1 (drop 1 r3) else []);
                ed = takeWhile is_digit (drop (1 + length sign) r3);
                ex = (if (take 1 r3 = ''e'' \<or> take 1 r3 = ''E'') \<and> ed \<noteq> []
                      then take 1 r3 @ sign @ ed else []);
                matched = (if neg then ''-'' else []) @ ds @ frac @ ex
            in Some (if frac = [] \<and> ex = []
                     then PInt (if neg then - int_of_digits ds else int_of_digits ds)
                     else PFloat matched,
                     length matched)))"

definition not_modelled :: exn where
  "not_modelled = Other ''NotImplementedError'' ''a string or a container with members''"

text \<open>The scanner at one position: the value and the position after it, or the exception.\<close>

definition scan_once :: "string \<Rightarrow> nat \<Rightarrow> exn + (pyval \<times> nat)" where
  \<open>scan_once s idx =
     (let rest = drop idx s;
          after = skip_ws s (idx + 1)
      in if rest = [] then Inl (JSONDecodeError ''Expecting value'' s idx)
         else if take 1 rest = ''"'' then Inl not_modelled
         else if take 1 rest = ''{'' then
           (if take 1 (drop after s) = ''}'' then Inr (PDict [], after + 1)
            else if take 1 (drop after s) = ''"'' then Inl not_modelled
            else Inl (JSONDecodeError ''Expecting property name enclosed in double quotes'' s after))
         else if take 1 rest = ''['' then
           (if take 1 (drop after s) = '']'' then Inr (PList [], after + 1)
            else Inl not_modelled)
         else if take 4 rest = ''null'' then Inr (PNone, idx + 4)
         else if take 4 rest = ''true'' then Inr (PBool True, idx + 4)
         else if take 5 rest = ''false'' then Inr (PBool False, idx + 5)
         else if take 3 rest = ''NaN'' then Inr (PFloat ''nan'', idx + 3)
         else if take 8 rest = ''Infinity'' then Inr (PFloat ''inf'', idx + 8)
         else if take 9 rest = ''-Infinity'' then Inr (PFloat ''-inf'', idx + 9)
         else
           (case match_number rest of
              Some (v, n) \<Rightarrow> Inr (v, idx + n)
            | None \<Rightarrow> Inl (JSONDecodeError ''Expecting value'' s idx)))\<close>

text \<open>
  \<open>json.loads\<close>: whitespace, one value, whitespace, and \<open>Extra data\<close> when the document
  goes on.
\<close>

definition json_loads :: decoder where
  "json_loads s =
     (case scan_once s (skip_ws s 0) of
        Inl e \<Rightarrow> Inl e
      | Inr (v, e) \<Rightarrow>
          (let e' = skip_ws s e
           in if e' \<noteq> length s then Inl (JSONDecodeError ''Extra data'' s e') else Inr v))"

section \<open>Reading a result, and the fixtures of the concrete runs\<close>

text \<open>\<open>obj[key]\<close> read from a dictionary; \<open>None\<close> where Python raises.\<close>

definition get_item :: "pyval \<Rightarrow> string \<Rightarrow> pyval option" where
  "get_item obj key = (case obj of PDict d \<Rightarrow> map_of d key | _ \<Rightarrow> None)"

text \<open>
  A file system where every path exists and extracts to the same text, a model that
  answers every prompt with the same reply, and the world before the first call.
\<close>

definition files_with :: "string \<Rightarrow> files" where
  "files_with document_text =
     \<lparr>path_exists = (\<lambda>p. True), extract_text_from_file = (\<lambda>p. Inr document_text)\<rparr>"

definition replying :: "string \<Rightarrow> unit client" where
  "replying reply = (\<lambda>s prompt. (Inr reply, s))"

definition fresh :: "unit world" where
  "fresh = \<lparr>client_state = (), prompts_sent = []\<rparr>"


text \<open>Whether a value is a dictionary.\<close>

definition is_mapping :: "pyval \<Rightarrow> bool" where
  "is_mapping v = (case v of PDict d \<Rightarrow> True | _ \<Rightarrow> False)"

section \<open>The schema block as the specification words it\<close>

text \<open>
  The specification describes the schema block by rules, not by the three passes over
  \<open>json_fields\<close> and the indexed loop of the program. The definitions of this section
  follow the specification. A document type has a map of hints for its fields and a set of
  plural fields. A field has the shape of an ordered sequence when it is \<open>risks\<close> or
  \<open>recommendations\<close> or a plural field of the type, and the shape of a string with a hint
  otherwise; the hint is the one the type has for the field, and the generic one when it
  has none; the entries stand in the order of the template's fields, separated by commas.
\<close>

text \<open>The entry of the table \<open>enhanced_descriptions\<close> for a type and a field.\<close>

definition type_hint :: "string \<Rightarrow> string \<Rightarrow> string option" where
  "type_hint document_type field =
     (case map_of enhanced_descriptions document_type of
        Some descs \<Rightarrow> map_of descs field
      | None \<Rightarrow> None)"

text \<open>
  The hints of a document type: its entries in the table and, for \<open>documentType\<close> and
  \<open>summary\<close>, the text made from the type and from the focus of its template.
\<close>

definition field_hints :: "string \<Rightarrow> string \<Rightarrow> string option" where
  "field_hints document_type field =
     (case type_hint document_type field of
        Some h \<Rightarrow> Some h
      | None \<Rightarrow>
          if field = ''documentType'' then
            Some (''Specific type of '' @ document_type @ '' document'')
          else if field = ''summary'' then
            Some (''Comprehensive summary focusing on ''
                    @ template_focus (get_document_template document_type)
                    @ '' with plain language explanation'')
          else None)"

definition spec_hint :: "string \<Rightarrow> string \<Rightarrow> string" where
  "spec_hint document_type field =
     (case field_hints document_type field of
        Some h \<Rightarrow> h
      | None \<Rightarrow> ''Relevant '' @ field @ '' information for this document type'')"

text \<open>
  The six plural names, and the plural fields of a document type: those of the six that
  its template lists.
\<close>

definition plural_names :: "string list" where
  "plural_names =
     [''obligations'', ''keyTerms'', ''statements'', ''facts'', ''precedents'', ''legalPrinciples'']"

definition plural_fields :: "string \<Rightarrow> string list" where
  "plural_fields document_type =
     filter (\<lambda>field. field \<in> set plural_names)
       (template_fields (get_document_template document_type))"

definition spec_sequence_instruction :: "string \<Rightarrow> string \<Rightarrow> string" where
  \<open>spec_sequence_instruction field details =
     ''\<newline>    "'' @ field @ ''": [\<newline>        "First '' @ butlast field
       @ '' item with clear explanation",\<newline>        "Second '' @ butlast field
       @ '' item with '' @ details @ '' details",\<newline>        "Additional '' @ butlast field
       @ '' items as needed"\<newline>    ]''\<close>

definition spec_scalar_instruction :: "string \<Rightarrow> string \<Rightarrow> string" where
  \<open>spec_scalar_instruction field hint =
     ''\<newline>    "'' @ field @ ''": "Provide detailed information about '' @ hint @ ''"''\<close>

definition spec_entry :: "string \<Rightarrow> string \<Rightarrow> string" where
  "spec_entry document_type field =
     (if field = ''risks'' \<or> field = ''recommendations'' then
        spec_sequence_instruction field ''actionable''
      else if field \<in> set (plural_fields document_type) then
        spec_sequence_instruction field ''practical''
      else spec_scalar_instruction field (spec_hint document_type field))"

definition spec_schema :: "string \<Rightarrow> string" where
  "spec_schema document_type =
     join '','' (map (spec_entry document_type)
                   (template_fields (get_document_template document_type)))"

section \<open>Lemmas about the building blocks\<close>

lemma general_valid: "''general'' \<in> set valid_types"
  by (simp add: valid_types_def)

lemma map_of_update: "map_of (AList.update k v al) k' = (if k' = k then Some v else map_of al k')"
  by (simp add: update_conv')

lemma strip_blank:
  assumes "\<forall>c \<in> set s. isspace c"
  shows "strip s = []"
proof -
  from assms have h: "dropWhile isspace s = []" by simp
  have "strip s = rev (dropWhile isspace (rev (dropWhile isspace s)))"
    by (simp only: strip_def lstrip_def rstrip_def)
  also have "\<dots> = []" by (simp only: h) simp
  finally show ?thesis .
qed

lemma str_nat_nonempty: "str_nat n \<noteq> []"
  by (subst str_nat.simps) simp

lemma errmsg_nonempty: "errmsg msg doc pos \<noteq> []"
  by (simp add: errmsg_def)

subsection \<open>The model calls\<close>

lemma generate_content_prompts:
  "generate_content gen prompt w = (r, w') \<Longrightarrow> prompts_sent w' = prompts_sent w @ [prompt]"
  by (auto simp add: generate_content_def split: prod.splits)

lemma detection_prompt_truncate:
  "detection_prompt (truncate_text document_text) = detection_prompt document_text"
  by (simp add: detection_prompt_def truncate_text_def max_chars_def)

lemma detect_deterministic:
  assumes "\<forall>s p. fst (gen s p) = f p"
  shows "fst (detect_document_type gen document_text w) =
           (case f (detection_prompt document_text) of
              Inl e \<Rightarrow> ''general''
            | Inr reply \<Rightarrow>
                if lower (strip reply) \<in> set valid_types then lower (strip reply) else ''general'')"
proof -
  have "fst (gen (client_state w) (detection_prompt document_text)) =
          f (detection_prompt document_text)"
    using assms by simp
  then show ?thesis
    by (auto simp add: detect_document_type_def generate_content_def Let_def
          split: prod.splits sum.splits)
qed

subsection \<open>The three passes over \<open>json_fields\<close>\<close>

lemma map_of_set_base_fold:
  "map_of (foldl (set_base dt tpl) jf fs) f =
     (if f \<in> set fs
      then (case base_description dt tpl f of Some d \<Rightarrow> Some d | None \<Rightarrow> map_of jf f)
      else map_of jf f)"
proof (induction fs arbitrary: jf)
  case Nil
  then show ?case by simp
next
  case (Cons a fs)
  have "map_of (foldl (set_base dt tpl) jf (a # fs)) f =
          (if f \<in> set fs
           then (case base_description dt tpl f of
                   Some d \<Rightarrow> Some d
                 | None \<Rightarrow> map_of (set_base dt tpl jf a) f)
           else map_of (set_base dt tpl jf a) f)"
    by (simp only: foldl_Cons Cons.IH)
  also have "map_of (set_base dt tpl jf a) f =
          (if f = a
           then (case base_description dt tpl f of Some d \<Rightarrow> Some d | None \<Rightarrow> map_of jf f)
           else map_of jf f)"
    by (simp add: set_base_def map_of_update split: option.splits)
  finally show ?case by (auto split: option.splits)
qed

lemma map_of_enhanced_fold:
  assumes "distinct (map fst descs)"
  shows "map_of (foldl (\<lambda>jf (field, enhanced_desc). AList.update field (Text enhanced_desc) jf)
                   jf descs) f =
     (case map_of descs f of Some h \<Rightarrow> Some (Text h) | None \<Rightarrow> map_of jf f)"
  using assms
proof (induction descs arbitrary: jf)
  case Nil
  then show ?case by simp
next
  case (Cons a descs)
  obtain k h where a: "a = (k, h)" by (cases a)
  from Cons.prems a have d: "distinct (map fst descs)" and nk: "k \<notin> fst ` set descs" by auto
  from nk have "map_of descs k = None" by (simp add: map_of_eq_None_iff)
  then show ?case
    by (auto simp add: a Cons.IH [OF d] map_of_update split: option.splits)
qed

lemma enhanced_distinct:
  assumes "map_of enhanced_descriptions dt = Some descs"
  shows "distinct (map fst descs)"
proof -
  from assms have "(dt, descs) \<in> set enhanced_descriptions" by (rule map_of_SomeD)
  moreover have "\<forall>(k, ds) \<in> set enhanced_descriptions. distinct (map fst ds)"
    by (simp add: enhanced_descriptions_def)
  ultimately show ?thesis by auto
qed

lemma map_of_apply_enhanced:
  "map_of (apply_enhanced dt jf) f =
     (case type_hint dt f of Some h \<Rightarrow> Some (Text h) | None \<Rightarrow> map_of jf f)"
  by (auto simp add: apply_enhanced_def type_hint_def map_of_enhanced_fold enhanced_distinct
        split: option.splits)

lemma map_of_ensure_fold:
  "map_of (foldl ensure_field jf fs) f =
     (case map_of jf f of
        Some d \<Rightarrow> Some d
      | None \<Rightarrow> if f \<in> set fs then Some (Text (generic_description f)) else None)"
proof (induction fs arbitrary: jf)
  case Nil
  then show ?case by (simp split: option.splits)
next
  case (Cons a fs)
  have "map_of (foldl ensure_field jf (a # fs)) f =
          (case map_of (ensure_field jf a) f of
             Some d \<Rightarrow> Some d
           | None \<Rightarrow> if f \<in> set fs then Some (Text (generic_description f)) else None)"
    by (simp only: foldl_Cons Cons.IH)
  also have "map_of (ensure_field jf a) f =
          (case map_of jf f of
             Some d \<Rightarrow> Some d
           | None \<Rightarrow> if f = a then Some (Text (generic_description f)) else None)"
    by (simp add: ensure_field_def map_of_update split: option.splits)
  finally show ?case by (auto split: option.splits)
qed

lemma map_of_build_json_fields:
  assumes "f \<in> set (template_fields tpl)"
  shows "map_of (build_json_fields dt tpl) f =
     Some (case type_hint dt f of
             Some h \<Rightarrow> Text h
           | None \<Rightarrow> (case base_description dt tpl f of
                        Some d \<Rightarrow> d
                      | None \<Rightarrow> Text (generic_description f)))"
  using assms
  by (simp add: build_json_fields_def map_of_ensure_fold map_of_apply_enhanced
        map_of_set_base_fold split: option.splits)

subsection \<open>The schema loop\<close>

lemma schema_entry_spec:
  assumes "f \<in> set (template_fields (get_document_template dt))"
  shows "schema_entry (build_json_fields dt (get_document_template dt)) f = spec_entry dt f"
proof -
  let ?d = "case type_hint dt f of
              Some h \<Rightarrow> Text h
            | None \<Rightarrow> (case base_description dt (get_document_template dt) f of
                         Some d \<Rightarrow> d
                       | None \<Rightarrow> Text (generic_description f))"
  have jf: "map_of (build_json_fields dt (get_document_template dt)) f = Some ?d"
    by (rule map_of_build_json_fields [OF assms])
  show ?thesis
  proof (cases "f = ''risks'' \<or> f = ''recommendations''")
    case True
    then show ?thesis
      by (auto simp add: schema_entry_def spec_entry_def spec_sequence_instruction_def Let_def)
  next
    case False
    note not_first = False
    show ?thesis
    proof (cases "f \<in> set plural_names")
      case True
      with assms have "f \<in> set (plural_fields dt)" by (simp add: plural_fields_def)
      with not_first True show ?thesis
        by (simp add: schema_entry_def spec_entry_def spec_sequence_instruction_def Let_def
              plural_names_def)
    next
      case False
      then have np: "f \<notin> set (plural_fields dt)" by (simp add: plural_fields_def)
      have "format_description ?d = spec_hint dt f"
        using not_first
        by (simp add: format_description_def spec_hint_def field_hints_def base_description_def
              generic_description_def split: option.splits)
      with not_first False np jf show ?thesis
        by (simp add: schema_entry_def spec_entry_def spec_scalar_instruction_def Let_def
              plural_names_def)
    qed
  qed
qed

lemma concat_enumerate_join:
  assumes "n + length fs = N"
  shows "concat (map (\<lambda>(i, f). g f @ (if i < N - 1 then c else [])) (enumerate n fs)) =
           join c (map g fs)"
  using assms
proof (induction fs arbitrary: n)
  case Nil
  then show ?case by simp
next
  case (Cons a fs)
  show ?case
  proof (cases fs)
    case Nil
    with Cons.prems have "\<not> n < N - 1" by auto
    with Nil show ?thesis by simp
  next
    case (Cons b fs')
    from Cons.prems Cons have lt: "n < N - 1" by simp
    from Cons.prems have "Suc n + length fs = N" by simp
    from Cons.IH [OF this] lt Cons show ?thesis by simp
  qed
qed

lemma schema_block_join: "schema_block jf fs = join '','' (map (schema_entry jf) fs)"
  unfolding schema_block_def
  by (rule concat_enumerate_join) simp

lemma schema_block_spec:
  "schema_block (build_json_fields dt (get_document_template dt))
     (template_fields (get_document_template dt)) = spec_schema dt"
proof -
  have "map (schema_entry (build_json_fields dt (get_document_template dt)))
          (template_fields (get_document_template dt)) =
        map (spec_entry dt) (template_fields (get_document_template dt))"
    by (rule map_cong) (simp_all add: schema_entry_spec)
  then show ?thesis by (simp only: schema_block_join spec_schema_def)
qed

subsection \<open>A run of the orchestrator that returns\<close>

lemma add_metadata_Inr:
  assumes "add_metadata r text dt = Inr result"
  shows "\<exists>d. r = PDict d
           \<and> get_item result ''detectedDocumentType'' = Some (PStr dt)
           \<and> get_item result ''analysisMetadata'' = Some (analysis_metadata text dt)"
  using assms
  by (cases r) (auto simp add: add_metadata_def set_item_def get_item_def map_of_update)

lemma analyze_document_Inr:
  assumes run: "analyze_document fs gen loads file_path w = (Inr result, w')"
    and ext: "extract_text_from_file fs file_path = Inr text"
  shows "\<exists>dt dt' w1 w2 reply parsed.
           detect_document_type gen text w = (dt, w1)
         \<and> detect_document_type gen (truncate_text text) w1 = (dt', w2)
         \<and> generate_content gen (build_analysis_prompt dt' (truncate_text text)) w2
             = (Inr reply, w')
         \<and> parse_ai_response loads reply = Inr parsed
         \<and> add_metadata parsed (truncate_text text) dt = Inr result"
proof -
  obtain dt w1 where d1: "detect_document_type gen text w = (dt, w1)"
    by (cases "detect_document_type gen text w")
  obtain dt' w2 where d2: "detect_document_type gen (truncate_text text) w1 = (dt', w2)"
    by (cases "detect_document_type gen (truncate_text text) w1")
  obtain r w3 where
    g: "generate_content gen (build_analysis_prompt dt' (truncate_text text)) w2 = (r, w3)"
    by (cases "generate_content gen (build_analysis_prompt dt' (truncate_text text)) w2")
  from run ext d1 d2 g show ?thesis
    by (auto simp add: analyze_document_def create_analysis_prompt_def Let_def
          split: if_splits sum.splits)
qed

subsection \<open>Lines and fences\<close>

lemma split_nonempty: "split sep s \<noteq> []"
  by (induction s) (auto split: list.splits)






lemma split_length:
  assumes "sep \<in> set s"
  shows "2 \<le> length (split sep s)"
  using assms
proof (induction s)
  case Nil
  then show ?case by simp
next
  case (Cons c cs)
  obtain l ls where s: "split sep cs = l # ls"
    using split_nonempty [of sep cs] by (cases "split sep cs") auto
  show ?case
  proof (cases "c = sep")
    case True
    with s show ?thesis by simp
  next
    case False
    with Cons.prems have "sep \<in> set cs" by simp
    from Cons.IH [OF this] False s show ?thesis by simp
  qed
qed

lemma strip_fence_Inr:
  assumes "\<not> startswith t fence \<or> nl \<in> set t"
  shows "\<exists>content. strip_fence t = Inr content"
proof (cases "startswith t fence")
  case True
  with assms have "nl \<in> set t" by simp
  then have "\<not> length (split nl t) < 2" using split_length [of nl t] by simp
  with True show ?thesis by (simp add: strip_fence_def Let_def)
next
  case False
  then show ?thesis by (simp add: strip_fence_def)
qed

subsection \<open>Concrete runs\<close>

lemma strip_replicate:
  assumes "\<not> isspace c"
  shows "strip (replicate n c) = replicate n c"
  using assms by (simp add: strip_def lstrip_def rstrip_def)

text \<open>
  A whole run: a text that is not blank, a model that answers \<open>{}\<close> to every prompt
  (no document type, then an empty JSON object).
\<close>

lemma sample_run:
  assumes "strip T \<noteq> []"
  shows "analyze_document (files_with T) (replying ''{}'') json_loads p fresh =
           (Inr (PDict [(''detectedDocumentType'', PStr ''general''),
                        (''analysisMetadata'', analysis_metadata (truncate_text T) ''general'')]),
            \<lparr>client_state = (),
             prompts_sent = [detection_prompt T, detection_prompt (truncate_text T),
                             build_analysis_prompt ''general'' (truncate_text T)]\<rparr>)"
proof -
  have low: "lower (strip ''{}'') = ''{}''" by code_simp
  have nv: "''{}'' \<notin> set valid_types" by (simp add: valid_types_def)
  have g: "\<And>q w. generate_content (replying ''{}'') q w =
             (Inr ''{}'', \<lparr>client_state = (), prompts_sent = prompts_sent w @ [q]\<rparr>)"
    by (simp add: generate_content_def replying_def)
  have d: "\<And>t w. detect_document_type (replying ''{}'') t w =
             (''general'', \<lparr>client_state = (), prompts_sent = prompts_sent w @ [detection_prompt t]\<rparr>)"
    by (simp add: detect_document_type_def g low nv)
  have pr: "parse_ai_response json_loads ''{}'' = Inr (PDict [])" by code_simp
  show ?thesis
    using assms
    by (simp add: analyze_document_def files_with_def d g create_analysis_prompt_def
          fresh_def pr add_metadata_def set_item_def Let_def)
qed

section \<open>The claims\<close>

text \<open>
  C1 (as amended). For every document type of the closed set of 18, the fields of its
  template include \<open>documentType\<close>, \<open>summary\<close> and \<open>recommendations\<close>; they include
  \<open>risks\<close> exactly when the type is not \<open>judgment\<close>, whose template lists
  \<open>implications\<close> and no \<open>risks\<close>.
\<close>

theorem C1_template_fields:
  assumes "t \<in> set valid_types"
  shows "''documentType'' \<in> set (template_fields (get_document_template t))
       \<and> ''summary'' \<in> set (template_fields (get_document_template t))
       \<and> ''recommendations'' \<in> set (template_fields (get_document_template t))
       \<and> (''risks'' \<in> set (template_fields (get_document_template t)) \<longleftrightarrow> t \<noteq> ''judgment'')
       \<and> ''implications'' \<in> set (template_fields (get_document_template ''judgment''))
       \<and> ''risks'' \<notin> set (template_fields (get_document_template ''judgment''))"
  using assms unfolding valid_types_def
  by (auto simp add: get_document_template_def templates_def)

text \<open>The theorem at the type \<open>lease\<close>, a member of the set.\<close>

theorem C1_template_fields_witness:
  "''lease'' \<in> set valid_types
   \<and> ''documentType'' \<in> set (template_fields (get_document_template ''lease''))
   \<and> ''summary'' \<in> set (template_fields (get_document_template ''lease''))
   \<and> ''recommendations'' \<in> set (template_fields (get_document_template ''lease''))
   \<and> ''risks'' \<in> set (template_fields (get_document_template ''lease''))"
proof -
  have v: "''lease'' \<in> set valid_types" by (simp add: valid_types_def)
  from C1_template_fields [OF v] v show ?thesis by simp
qed

text \<open>
  C1 as the specification states it fails at \<open>judgment\<close>: the type is in the closed set and
  its template has no field \<open>risks\<close>.
\<close>

theorem C1_judgment_counterexample:
  "''judgment'' \<in> set valid_types
   \<and> ''risks'' \<notin> set (template_fields (get_document_template ''judgment''))"
  by (simp add: valid_types_def get_document_template_def templates_def)

text \<open>
  C2 (as amended). When \<open>analyze_document\<close> returns a result for a file whose extracted
  text has at most 30,000 characters, \<open>analysisMetadata.documentLength\<close> is the length of
  that text and the text is passed on as it is; when the text has more than 30,000
  characters, the text passed on is its first 30,000 characters followed by the
  truncation marker, and \<open>documentLength\<close> is 30,000 plus the length of the marker. The
  text passed on is the one the last prompt sent to the model is built from.
\<close>

theorem C2_document_length:
  assumes "analyze_document fs gen loads file_path w = (Inr result, w')"
    and "extract_text_from_file fs file_path = Inr text"
  shows "\<exists>md passed dt.
           get_item result ''analysisMetadata'' = Some md
         \<and> get_item md ''documentLength'' = Some (PInt (int (length passed)))
         \<and> passed = (if length text \<le> 30000 then text else take 30000 text @ truncation_marker)
         \<and> length passed =
             (if length text \<le> 30000 then length text else 30000 + length truncation_marker)
         \<and> last (prompts_sent w') = build_analysis_prompt dt passed"
proof -
  from analyze_document_Inr [OF assms] obtain dt dt' w1 w2 reply parsed where
    g: "generate_content gen (build_analysis_prompt dt' (truncate_text text)) w2 = (Inr reply, w')"
    and m: "add_metadata parsed (truncate_text text) dt = Inr result"
    by blast
  from add_metadata_Inr [OF m]
  have md: "get_item result ''analysisMetadata'' = Some (analysis_metadata (truncate_text text) dt)"
    by blast
  have len: "get_item (analysis_metadata (truncate_text text) dt) ''documentLength'' =
               Some (PInt (int (length (truncate_text text))))"
    by (simp add: analysis_metadata_def get_item_def)
  have tr: "truncate_text text =
              (if length text \<le> 30000 then text else take 30000 text @ truncation_marker)"
    by (simp add: truncate_text_def max_chars_def)
  have ln: "length (truncate_text text) =
              (if length text \<le> 30000 then length text else 30000 + length truncation_marker)"
    by (simp add: truncate_text_def max_chars_def)
  have lp: "last (prompts_sent w') = build_analysis_prompt dt' (truncate_text text)"
    using generate_content_prompts [OF g] by simp
  from md len tr ln lp show ?thesis by metis
qed

text \<open>
  The theorem at a run that returns: a text of 30,001 characters, a model that answers
  \<open>{}\<close>. The text passed on is 30,038 characters long.
\<close>

theorem C2_document_length_witness:
  "extract_text_from_file (files_with (replicate 30001 CHR ''a'')) ''lease.txt''
     = Inr (replicate 30001 CHR ''a'')
   \<and> (\<exists>md passed dt.
         get_item (PDict [(''detectedDocumentType'', PStr ''general''),
                          (''analysisMetadata'',
                             analysis_metadata (truncate_text (replicate 30001 CHR ''a'')) ''general'')])
           ''analysisMetadata'' = Some md
       \<and> get_item md ''documentLength'' = Some (PInt (int (length passed)))
       \<and> passed = take 30000 (replicate 30001 CHR ''a'') @ truncation_marker
       \<and> length passed = 30038
       \<and> build_analysis_prompt ''general'' (truncate_text (replicate 30001 CHR ''a''))
           = build_analysis_prompt dt passed)"
proof -
  let ?T = "replicate 30001 CHR ''a''"
  have ns: "\<not> isspace CHR ''a''" by code_simp
  have "strip ?T \<noteq> []" by (simp add: strip_replicate [OF ns])
  note run = sample_run [OF this, of "''lease.txt''"]
  have ext: "extract_text_from_file (files_with ?T) ''lease.txt'' = Inr ?T"
    by (simp add: files_with_def)
  from C2_document_length [OF run ext] ext show ?thesis
    by (simp add: truncation_marker_def)
qed

text \<open>
  C2 as the specification states it fails at a text of exactly 30,000 characters: the
  claim asks for 30,000 plus the length of the marker, the program compares with \<open>>\<close>,
  leaves the text as it is and records 30,000.
\<close>

theorem C2_boundary_counterexample:
  "length (replicate 30000 CHR ''a'') \<ge> 30000
   \<and> fst (analyze_document (files_with (replicate 30000 CHR ''a'')) (replying ''{}'') json_loads
            ''lease.txt'' fresh) =
       Inr (PDict [(''detectedDocumentType'', PStr ''general''),
                   (''analysisMetadata'',
                      PDict [(''documentLength'', PInt 30000),
                             (''processingTime'', PStr ''completed''),
                             (''aiModel'', PStr ''gemini-1.5-flash''),
                             (''analysisType'', PStr ''general_specific'')])])
   \<and> (30000 :: int) \<noteq> 30000 + int (length truncation_marker)"
proof -
  have ns: "\<not> isspace CHR ''a''" by code_simp
  have "strip (replicate 30000 CHR ''a'') \<noteq> []"
    by (simp add: strip_replicate [OF ns])
  from sample_run [OF this] show ?thesis
    by (simp add: analysis_metadata_def truncate_text_def max_chars_def model_name_def
          truncation_marker_def)
qed

text \<open>
  C3. For every input text and every behaviour of the model client, the classification
  returns a member of the closed set of 18 labels: the reply stripped and lowered when
  that is a member of the set, and \<open>general\<close> otherwise, also when the model call raises.
  The function has no exceptional outcome: its body is inside \<open>try ... except Exception\<close>.
\<close>

theorem C3_classification_total:
  "fst (detect_document_type gen document_text w) \<in> set valid_types
   \<and> fst (detect_document_type gen document_text w) =
       (case fst (gen (client_state w) (detection_prompt document_text)) of
          Inl e \<Rightarrow> ''general''
        | Inr reply \<Rightarrow>
            if lower (strip reply) \<in> set valid_types then lower (strip reply) else ''general'')"
  by (auto simp add: detect_document_type_def generate_content_def general_valid Let_def
        split: prod.splits sum.splits)

text \<open>The theorem at a model that raises, at a reply that is a label, and at one that is not.\<close>

theorem C3_classification_total_witness:
  "fst (detect_document_type (\<lambda>s p. (Inl (Other ''DeadlineExceeded'' ''504''), s)) [] fresh)
     = ''general''
   \<and> fst (detect_document_type (replying '' Court_Order '') [] fresh) = ''court_order''
   \<and> fst (detect_document_type (replying ''a lease'') [] fresh) = ''general''"
proof -
  have a: "lower (strip '' Court_Order '') = ''court_order''" by code_simp
  have b: "lower (strip ''a lease'') = ''a lease''" by code_simp
  have va: "''court_order'' \<in> set valid_types" by (simp add: valid_types_def)
  have vb: "''a lease'' \<notin> set valid_types" by (simp add: valid_types_def)
  from C3_classification_total [of "\<lambda>s p. (Inl (Other ''DeadlineExceeded'' ''504''), s)" "[]" fresh]
    C3_classification_total [of "replying '' Court_Order ''" "[]" fresh]
    C3_classification_total [of "replying ''a lease''" "[]" fresh]
  show ?thesis
    by (simp add: replying_def a b va vb)
qed

text \<open>
  C4. The claim says that the parser returns a result for every reply, a reply of a single
  fence line included. The program does not: on the reply made of the three backticks,
  \<open>lines\<close> has one element, \<open>lines[1]\<close> raises \<open>IndexError\<close>, and the handler catches
  \<open>json.JSONDecodeError\<close> only. This holds for every decoder.
\<close>

theorem C4_single_fence_line:
  "parse_ai_response loads fence = Inl (IndexError ''list index out of range'')"
proof -
  have "strip fence = fence" by code_simp
  moreover have "strip_fence fence = Inl (IndexError ''list index out of range'')" by code_simp
  ultimately show ?thesis by (simp add: parse_ai_response_def)
qed

text \<open>
  C5 (as amended). For every reply that, stripped, does not begin with a fence or has more
  than one line, the removal of the fence lines yields a content; and whenever the decoder
  rejects that content with a \<open>JSONDecodeError\<close>, the parser returns the fallback
  dictionary, with these six keys and no other: \<open>documentType\<close> and \<open>summary\<close> with their
  fixed texts, \<open>error\<close> with \<open>JSON parsing failed\<close>, \<open>errorDetails\<close> with the message of the
  error, which is not empty, \<open>rawResponse\<close> with the content (not the reply as it came), cut
  to 1000 characters with \<open>...\<close> appended when it is longer, and \<open>recommendations\<close> with a
  list of one item that recommends a manual review. A reply of one line that begins with
  a fence is left out: there the parser raises \<open>IndexError\<close>, whatever the line holds.
\<close>

theorem C5_fallback_shape:
  assumes "\<not> startswith (strip reply) fence \<or> nl \<in> set (strip reply)"
  shows "\<exists>content.
           strip_fence (strip reply) = Inr content
         \<and> (\<forall>msg doc pos. loads content = Inl (JSONDecodeError msg doc pos) \<longrightarrow>
               errmsg msg doc pos \<noteq> []
             \<and> parse_ai_response loads reply =
                 Inr (PDict
                   [(''documentType'', PStr ''Document Analysis''),
                    (''summary'', PStr ''The document was analyzed but the response could not be parsed into structured format. The AI may have provided analysis in an unexpected format.''),
                    (''error'', PStr ''JSON parsing failed''),
                    (''errorDetails'', PStr (errmsg msg doc pos)),
                    (''rawResponse'',
                       PStr (if length content > 1000 then take 1000 content @ ''...''
                             else content)),
                    (''recommendations'',
                       PList [PDict
                         [(''item'', PStr ''Manual review recommended''),
                          (''severity'', PStr ''HIGH''),
                          (''explanation'', PStr ''The automated analysis encountered formatting issues. Please review the raw response above.''),
                          (''action'', PStr ''Contact support or retry the analysis'')]])]))"
proof -
  from strip_fence_Inr [OF assms] obtain content where
    c: "strip_fence (strip reply) = Inr content" by blast
  have "errmsg msg doc pos \<noteq> []
      \<and> parse_ai_response loads reply = Inr (fallback_response (errmsg msg doc pos) content)"
    if "loads content = Inl (JSONDecodeError msg doc pos)" for msg doc pos
    using that c by (simp add: parse_ai_response_def errmsg_nonempty)
  with c show ?thesis by (auto simp add: fallback_response_def)
qed

text \<open>The theorem at a fenced reply of three lines whose content is the broken object \<open>{x\<close>.\<close>

theorem C5_fallback_shape_witness:
  "nl \<in> set (strip (fence @ ''json\<newline>{x\<newline>'' @ fence))
   \<and> strip_fence (strip (fence @ ''json\<newline>{x\<newline>'' @ fence)) = Inr ''{x''
   \<and> json_loads ''{x'' =
       Inl (JSONDecodeError ''Expecting property name enclosed in double quotes'' ''{x'' 1)
   \<and> parse_ai_response json_loads (fence @ ''json\<newline>{x\<newline>'' @ fence) =
       Inr (PDict
         [(''documentType'', PStr ''Document Analysis''),
          (''summary'', PStr ''The document was analyzed but the response could not be parsed into structured format. The AI may have provided analysis in an unexpected format.''),
          (''error'', PStr ''JSON parsing failed''),
          (''errorDetails'',
             PStr ''Expecting property name enclosed in double quotes: line 1 column 2 (char 1)''),
          (''rawResponse'', PStr ''{x''),
          (''recommendations'',
             PList [PDict
               [(''item'', PStr ''Manual review recommended''),
                (''severity'', PStr ''HIGH''),
                (''explanation'', PStr ''The automated analysis encountered formatting issues. Please review the raw response above.''),
                (''action'', PStr ''Contact support or retry the analysis'')]])])"
proof -
  let ?reply = "fence @ ''json\<newline>{x\<newline>'' @ fence"
  have n: "nl \<in> set (strip ?reply)" by code_simp
  then have h: "\<not> startswith (strip ?reply) fence \<or> nl \<in> set (strip ?reply)" by simp
  have a: "strip_fence (strip ?reply) = Inr ''{x''" by code_simp
  have b: "json_loads ''{x'' =
       Inl (JSONDecodeError ''Expecting property name enclosed in double quotes'' ''{x'' 1)"
    by code_simp
  have m: "errmsg ''Expecting property name enclosed in double quotes'' ''{x'' 1 =
             ''Expecting property name enclosed in double quotes: line 1 column 2 (char 1)''"
    by code_simp
  from C5_fallback_shape [OF h, of json_loads] obtain content where
    c: "strip_fence (strip ?reply) = Inr content" and
    r: "\<forall>msg doc pos. json_loads content = Inl (JSONDecodeError msg doc pos) \<longrightarrow>
          errmsg msg doc pos \<noteq> []
        \<and> parse_ai_response json_loads ?reply =
            Inr (PDict
              [(''documentType'', PStr ''Document Analysis''),
               (''summary'', PStr ''The document was analyzed but the response could not be parsed into structured format. The AI may have provided analysis in an unexpected format.''),
               (''error'', PStr ''JSON parsing failed''),
               (''errorDetails'', PStr (errmsg msg doc pos)),
               (''rawResponse'',
                  PStr (if length content > 1000 then take 1000 content @ ''...'' else content)),
               (''recommendations'',
                  PList [PDict
                    [(''item'', PStr ''Manual review recommended''),
                     (''severity'', PStr ''HIGH''),
                     (''explanation'', PStr ''The automated analysis encountered formatting issues. Please review the raw response above.''),
                     (''action'', PStr ''Contact support or retry the analysis'')]])])"
    by blast
  from c a have content: "content = ''{x''" by simp
  from r b content m have "parse_ai_response json_loads ?reply =
       Inr (PDict
         [(''documentType'', PStr ''Document Analysis''),
          (''summary'', PStr ''The document was analyzed but the response could not be parsed into structured format. The AI may have provided analysis in an unexpected format.''),
          (''error'', PStr ''JSON parsing failed''),
          (''errorDetails'',
             PStr ''Expecting property name enclosed in double quotes: line 1 column 2 (char 1)''),
          (''rawResponse'', PStr ''{x''),
          (''recommendations'',
             PList [PDict
               [(''item'', PStr ''Manual review recommended''),
                (''severity'', PStr ''HIGH''),
                (''explanation'', PStr ''The automated analysis encountered formatting issues. Please review the raw response above.''),
                (''action'', PStr ''Contact support or retry the analysis'')]])])"
    by simp
  with n a b show ?thesis by blast
qed

text \<open>
  C5 as the specification states it fails at the reply \<open>" x"\<close>: the claim asks for the
  original reply in \<open>rawResponse\<close>, the program stores the stripped text \<open>"x"\<close>.
\<close>

theorem C5_raw_response_counterexample:
  "parse_ai_response json_loads '' x''
     = Inr (fallback_response ''Expecting value: line 1 column 1 (char 0)'' ''x'')
   \<and> get_item (fallback_response ''Expecting value: line 1 column 1 (char 0)'' ''x'')
       ''rawResponse'' = Some (PStr ''x'')
   \<and> ''x'' \<noteq> '' x''"
proof -
  have "parse_ai_response json_loads '' x''
     = Inr (fallback_response ''Expecting value: line 1 column 1 (char 0)'' ''x'')"
    by code_simp
  then show ?thesis by (simp add: fallback_response_def get_item_def)
qed




text \<open>
  C7. The claim says that the parser returns a mapping for every reply, also when the reply
  is valid JSON that is no object. The program returns what the decoder returns: on the
  reply \<open>5\<close> the integer 5, and the orchestrator then raises \<open>TypeError\<close> at the first
  assignment of the metadata.
\<close>

theorem C7_non_object_reply:
  "parse_ai_response json_loads ''5'' = Inr (PInt 5)
   \<and> \<not> is_mapping (PInt 5)
   \<and> fst (analyze_document (files_with ''Lease agreement'') (replying ''5'') json_loads
            ''lease.txt'' fresh)
       = Inl (TypeError (CHR 0x27 # ''int'' @ CHR 0x27 # '' object does not support item assignment''))"
proof -
  have p: "parse_ai_response json_loads ''5'' = Inr (PInt 5)" by code_simp
  have low: "lower (strip ''5'') = ''5''" by code_simp
  have nv: "''5'' \<notin> set valid_types" by (simp add: valid_types_def)
  have nb: "strip ''Lease agreement'' \<noteq> []" by code_simp
  have g: "\<And>q w. generate_content (replying ''5'') q w =
             (Inr ''5'', \<lparr>client_state = (), prompts_sent = prompts_sent w @ [q]\<rparr>)"
    by (simp add: generate_content_def replying_def)
  have d: "\<And>t w. detect_document_type (replying ''5'') t w =
             (''general'', \<lparr>client_state = (), prompts_sent = prompts_sent w @ [detection_prompt t]\<rparr>)"
    by (simp add: detect_document_type_def g low nv)
  have "fst (analyze_document (files_with ''Lease agreement'') (replying ''5'') json_loads
            ''lease.txt'' fresh)
       = Inl (TypeError (CHR 0x27 # ''int'' @ CHR 0x27 # '' object does not support item assignment''))"
    using nb
    by (simp add: analyze_document_def files_with_def d g create_analysis_prompt_def
          fresh_def p add_metadata_def set_item_def Let_def)
  with p show ?thesis by (simp add: is_mapping_def)
qed

text \<open>
  C8. For every document text and every document type the classifier resolves, the schema
  block of the prompt lists the fields in the order of the template's fields, a comma
  between two entries; \<open>risks\<close>, \<open>recommendations\<close> and the plural fields of the type (those
  of \<open>obligations\<close>, \<open>keyTerms\<close>, \<open>statements\<close>, \<open>facts\<close>, \<open>precedents\<close>, \<open>legalPrinciples\<close>
  that its template lists) are rendered as lists of three slots, every other field as a
  string that carries the hint the type has for the field, and the generic hint
  \<open>Relevant {field} information for this document type\<close> when the type has none.
\<close>

theorem C8_schema_block:
  "fst (create_analysis_prompt gen document_text w) =
     (let document_type = fst (detect_document_type gen document_text w)
      in analysis_intro @ document_text @ analysis_type_label @ upper document_type
           @ analysis_focus_label @ template_focus (get_document_template document_type)
           @ analysis_mission @ spec_schema document_type @ analysis_closing)"
  by (simp add: create_analysis_prompt_def build_analysis_prompt_def schema_block_spec Let_def
        split: prod.splits)

text \<open>
  The theorem at a model that answers \<open>Contract\<close>: the whole prompt, with the schema block
  of the contract template written out, and the plural fields of two types. \<open>parties\<close> has no hint and gets the generic one;
  \<open>keyTerms\<close> and \<open>obligations\<close> are lists although the type has hints for them.
\<close>

theorem C8_schema_block_witness:
  \<open>fst (create_analysis_prompt (replying ''Contract'') ''This Agreement is made'' fresh) =
     analysis_intro @ ''This Agreement is made'' @ analysis_type_label @ ''CONTRACT''
       @ analysis_focus_label
       @ ''contractual obligations, performance requirements, and legal commitments''
       @ analysis_mission
       @ (''\<newline>'' @
         ''    "documentType": "Provide detailed information about Specific type of contract document",\<newline>'' @
         ''    "summary": "Provide detailed information about Comprehensive summary focusing on contractual obligations, performance requirements, and legal commitments with plain language explanation",\<newline>'' @
         ''    "parties": "Provide detailed information about Relevant parties information for this document type",\<newline>'' @
         ''    "keyTerms": [\<newline>'' @
         ''        "First keyTerm item with clear explanation",\<newline>'' @
         ''        "Second keyTerm item with practical details",\<newline>'' @
         ''        "Additional keyTerm items as needed"\<newline>'' @
         ''    ],\<newline>'' @
         ''    "obligations": [\<newline>'' @
         ''        "First obligation item with clear explanation",\<newline>'' @
         ''        "Second obligation item with practical details",\<newline>'' @
         ''        "Additional obligation items as needed"\<newline>'' @
         ''    ],\<newline>'' @
         ''    "deliverables": "Provide detailed information about Specific items/services to be provided",\<newline>'' @
         ''    "timeline": "Provide detailed information about Important deadlines and milestones",\<newline>'' @
         ''    "paymentTerms": "Provide detailed information about Financial obligations and schedules",\<newline>'' @
         ''    "terminationClauses": "Provide detailed information about How the contract can end",\<newline>'' @
         ''    "penalties": "Provide detailed information about Consequences for breach",\<newline>'' @
         ''    "disputeResolution": "Provide detailed information about How conflicts are resolved",\<newline>'' @
         ''    "risks": [\<newline>'' @
         ''        "First risk item with clear explanation",\<newline>'' @
         ''        "Second risk item with actionable details",\<newline>'' @
         ''        "Additional risk items as needed"\<newline>'' @
         ''    ],\<newline>'' @
         ''    "recommendations": [\<newline>'' @
         ''        "First recommendation item with clear explanation",\<newline>'' @
         ''        "Second recommendation item with actionable details",\<newline>'' @
         ''        "Additional recommendation items as needed"\<newline>'' @
         ''    ]'')
       @ analysis_closing
   \<and> plural_fields ''contract'' = [''keyTerms'', ''obligations'']
   \<and> plural_fields ''judgment'' = [''facts'', ''legalPrinciples'', ''precedents'']\<close>
proof -
  have low: "lower (strip ''Contract'') = ''contract''" by code_simp
  have d: "fst (detect_document_type (replying ''Contract'') ''This Agreement is made'' fresh)
             = ''contract''"
    by (simp add: detect_document_type_def generate_content_def replying_def fresh_def low
          valid_types_def)
  have u: "upper ''contract'' = ''CONTRACT''" by code_simp
  have f: "template_focus (get_document_template ''contract'') =
             ''contractual obligations, performance requirements, and legal commitments''"
    by code_simp
  have s: \<open>spec_schema ''contract'' =
         ''\<newline>'' @
         ''    "documentType": "Provide detailed information about Specific type of contract document",\<newline>'' @
         ''    "summary": "Provide detailed information about Comprehensive summary focusing on contractual obligations, performance requirements, and legal commitments with plain language explanation",\<newline>'' @
         ''    "parties": "Provide detailed information about Relevant parties information for this document type",\<newline>'' @
         ''    "keyTerms": [\<newline>'' @
         ''        "First keyTerm item with clear explanation",\<newline>'' @
         ''        "Second keyTerm item with practical details",\<newline>'' @
         ''        "Additional keyTerm items as needed"\<newline>'' @
         ''    ],\<newline>'' @
         ''    "obligations": [\<newline>'' @
         ''        "First obligation item with clear explanation",\<newline>'' @
         ''        "Second obligation item with practical details",\<newline>'' @
         ''        "Additional obligation items as needed"\<newline>'' @
         ''    ],\<newline>'' @
         ''    "deliverables": "Provide detailed information about Specific items/services to be provided",\<newline>'' @
         ''    "timeline": "Provide detailed information about Important deadlines and milestones",\<newline>'' @
         ''    "paymentTerms": "Provide detailed information about Financial obligations and schedules",\<newline>'' @
         ''    "terminationClauses": "Provide detailed information about How the contract can end",\<newline>'' @
         ''    "penalties": "Provide detailed information about Consequences for breach",\<newline>'' @
         ''    "disputeResolution": "Provide detailed information about How conflicts are resolved",\<newline>'' @
         ''    "risks": [\<newline>'' @
         ''        "First risk item with clear explanation",\<newline>'' @
         ''        "Second risk item with actionable details",\<newline>'' @
         ''        "Additional risk items as needed"\<newline>'' @
         ''    ],\<newline>'' @
         ''    "recommendations": [\<newline>'' @
         ''        "First recommendation item with clear explanation",\<newline>'' @
         ''        "Second recommendation item with actionable details",\<newline>'' @
         ''        "Additional recommendation items as needed"\<newline>'' @
         ''    ]''\<close>
    by code_simp
  have pc: "plural_fields ''contract'' = [''keyTerms'', ''obligations'']" by code_simp
  have pj: "plural_fields ''judgment'' = [''facts'', ''legalPrinciples'', ''precedents'']"
    by code_simp
  have "fst (create_analysis_prompt (replying ''Contract'') ''This Agreement is made'' fresh) =
          analysis_intro @ ''This Agreement is made'' @ analysis_type_label @ ''CONTRACT''
            @ analysis_focus_label
            @ ''contractual obligations, performance requirements, and legal commitments''
            @ analysis_mission @ spec_schema ''contract'' @ analysis_closing"
    using C8_schema_block [of "replying ''Contract''" "''This Agreement is made''" fresh]
    by (simp only: d Let_def u f)
  with pc pj show ?thesis by (simp only: s simp_thms)
qed

text \<open>
  C9. When the reply of the model client depends on the prompt only, the document type
  the orchestrator gets from the full text is the one the prompt synthesizer derives again
  from the truncated text (at any later state of the world) and uses to select the
  template: both detection prompts hold the same first 4,000 characters. So in a run
  that returns, \<open>detectedDocumentType\<close> is the type the analysis prompt was built for.
\<close>

theorem C9_classification_consistent:
  assumes "\<forall>s p. fst (gen s p) = f p"
  shows "fst (detect_document_type gen (truncate_text document_text) w1) =
           fst (detect_document_type gen document_text w)
       \<and> fst (create_analysis_prompt gen (truncate_text document_text) w1) =
           build_analysis_prompt (fst (detect_document_type gen document_text w))
             (truncate_text document_text)
       \<and> (analyze_document fs gen loads file_path w = (Inr result, w')
            \<and> extract_text_from_file fs file_path = Inr document_text \<longrightarrow>
          get_item result ''detectedDocumentType'' =
            Some (PStr (fst (detect_document_type gen document_text w)))
          \<and> last (prompts_sent w') =
              build_analysis_prompt (fst (detect_document_type gen document_text w))
                (truncate_text document_text))"
proof -
  have same: "\<And>w1. fst (detect_document_type gen (truncate_text document_text) w1) =
           fst (detect_document_type gen document_text w)"
    by (simp only: detect_deterministic [OF assms] detection_prompt_truncate)
  have "fst (create_analysis_prompt gen (truncate_text document_text) w1) =
          build_analysis_prompt (fst (detect_document_type gen (truncate_text document_text) w1))
            (truncate_text document_text)"
    by (simp add: create_analysis_prompt_def split: prod.splits)
  then have prompt: "fst (create_analysis_prompt gen (truncate_text document_text) w1) =
           build_analysis_prompt (fst (detect_document_type gen document_text w))
             (truncate_text document_text)"
    by (simp only: same)
  have run: "get_item result ''detectedDocumentType'' =
            Some (PStr (fst (detect_document_type gen document_text w)))
          \<and> last (prompts_sent w') =
              build_analysis_prompt (fst (detect_document_type gen document_text w))
                (truncate_text document_text)"
    if r: "analyze_document fs gen loads file_path w = (Inr result, w')"
      and e: "extract_text_from_file fs file_path = Inr document_text"
  proof -
    from analyze_document_Inr [OF r e] obtain dt dt' w1 w2 reply parsed where
      d1: "detect_document_type gen document_text w = (dt, w1)" and
      d2: "detect_document_type gen (truncate_text document_text) w1 = (dt', w2)" and
      g: "generate_content gen (build_analysis_prompt dt' (truncate_text document_text)) w2
            = (Inr reply, w')" and
      m: "add_metadata parsed (truncate_text document_text) dt = Inr result"
      by blast
    from same [of w1] d1 d2 have eq: "dt' = dt" by simp
    from add_metadata_Inr [OF m] have "get_item result ''detectedDocumentType'' = Some (PStr dt)"
      by blast
    moreover have "last (prompts_sent w') = build_analysis_prompt dt' (truncate_text document_text)"
      using generate_content_prompts [OF g] by simp
    ultimately show ?thesis using d1 eq by simp
  qed
  from same [of w1] prompt run show ?thesis by blast
qed

text \<open>
  The theorem at a text of 30,001 characters and a model that answers \<open>Lease\<close> to every
  prompt: the run returns the fallback result with the type \<open>lease\<close>.
\<close>

theorem C9_classification_consistent_witness:
  "(\<forall>s p. fst (replying '' Lease '' s p) = Inr '' Lease '')
   \<and> fst (detect_document_type (replying '' Lease '') (replicate 30001 CHR ''a'') fresh) = ''lease''
   \<and> fst (detect_document_type (replying '' Lease '')
            (truncate_text (replicate 30001 CHR ''a'')) fresh) = ''lease''
   \<and> extract_text_from_file (files_with (replicate 30001 CHR ''a'')) ''lease.txt''
       = Inr (replicate 30001 CHR ''a'')
   \<and> (\<exists>result w'.
         analyze_document (files_with (replicate 30001 CHR ''a'')) (replying '' Lease '')
           json_loads ''lease.txt'' fresh = (Inr result, w')
       \<and> get_item result ''detectedDocumentType'' = Some (PStr ''lease'')
       \<and> last (prompts_sent w') =
           build_analysis_prompt ''lease'' (truncate_text (replicate 30001 CHR ''a'')))"
proof -
  let ?T = "replicate 30001 CHR ''a''"
  let ?gen = "replying '' Lease ''"
  have det: "\<forall>s p. fst (?gen s p) = (\<lambda>p. Inr '' Lease '') p"
    by (simp add: replying_def)
  have low: "lower (strip '' Lease '') = ''lease''" by code_simp
  have v: "''lease'' \<in> set valid_types" by (simp add: valid_types_def)
  have g: "\<And>q w. generate_content ?gen q w =
             (Inr '' Lease '', \<lparr>client_state = (), prompts_sent = prompts_sent w @ [q]\<rparr>)"
    by (simp add: generate_content_def replying_def)
  have d: "\<And>t w. detect_document_type ?gen t w =
             (''lease'', \<lparr>client_state = (), prompts_sent = prompts_sent w @ [detection_prompt t]\<rparr>)"
    by (simp add: detect_document_type_def g low v)
  have ns: "\<not> isspace CHR ''a''" by code_simp
  have nb: "strip ?T \<noteq> []" by (simp add: strip_replicate [OF ns])
  have pr: "parse_ai_response json_loads '' Lease '' =
              Inr (fallback_response ''Expecting value: line 1 column 1 (char 0)'' ''Lease'')"
    by code_simp
  have ext: "extract_text_from_file (files_with ?T) ''lease.txt'' = Inr ?T"
    by (simp add: files_with_def)
  obtain result w' where
    run: "analyze_document (files_with ?T) ?gen json_loads ''lease.txt'' fresh = (Inr result, w')"
    using nb
    by (simp add: analyze_document_def files_with_def d g create_analysis_prompt_def
          fresh_def pr add_metadata_def set_item_def Let_def fallback_response_def)
  from C9_classification_consistent [OF det, of ?T fresh fresh "files_with ?T" json_loads "''lease.txt''" result w']
    run ext d det
  show ?thesis by simp
qed

text \<open>
  C10. For every file that exists and whose extracted text is empty or holds whitespace
  only, \<open>analyze_document\<close> raises the \<open>ValueError\<close> of the empty document, and the world
  is the one it started in: no prompt was sent and the state of the model client is
  untouched.
\<close>

theorem C10_empty_document:
  assumes "path_exists fs file_path"
    and "extract_text_from_file fs file_path = Inr document_text"
    and "\<forall>c \<in> set document_text. isspace c"
  shows "analyze_document fs gen loads file_path w =
           (Inl (ValueError ''No text could be extracted from the document''), w)"
  using assms(1,2) strip_blank [OF assms(3)]
  by (simp add: analyze_document_def)

text \<open>The theorem at a file of a blank, a newline and a blank.\<close>

theorem C10_empty_document_witness:
  "path_exists (files_with '' \<newline> '') ''blank.txt''
   \<and> extract_text_from_file (files_with '' \<newline> '') ''blank.txt'' = Inr '' \<newline> ''
   \<and> analyze_document (files_with '' \<newline> '') (replying ''lease'') json_loads ''blank.txt'' fresh
       = (Inl (ValueError ''No text could be extracted from the document''), fresh)
   \<and> prompts_sent fresh = []"
proof -
  have e: "path_exists (files_with '' \<newline> '') ''blank.txt''" by (simp add: files_with_def)
  have x: "extract_text_from_file (files_with '' \<newline> '') ''blank.txt'' = Inr '' \<newline> ''"
    by (simp add: files_with_def)
  have s: "\<forall>c \<in> set '' \<newline> ''. isspace c" by code_simp
  from C10_empty_document [OF e x s] e x show ?thesis by (simp add: fresh_def)
qed

end
